theory Spec2Isabelle
  imports Main "HOL-Library.Sublist"
begin

section \<open>Python values and how they print\<close>

text \<open>
  The values that reach the code of \<^verbatim>\<open>abc_example.py\<close>: what \<^verbatim>\<open>json.loads\<close> and
  \<^verbatim>\<open>yaml.load\<close> build (without floats) and what a caller assigns to a property. A
  \<open>string\<close> stands for a Python \<^verbatim>\<open>str\<close> whose code points are below 256. A
  \<open>PDict\<close> holds the items of a \<^verbatim>\<open>dict\<close> in insertion order.
\<close>

datatype pyval =
    PNone
  | PBool bool
  | PInt int
  | PStr string
  | PList "pyval list"
  | PDict "(pyval \<times> pyval) list"

text \<open>\<^verbatim>\<open>isinstance(value, str)\<close> and \<^verbatim>\<open>isinstance(value, int)\<close>. In Python \<^verbatim>\<open>bool\<close>
  is a subclass of \<^verbatim>\<open>int\<close>, so \<^verbatim>\<open>isinstance(True, int)\<close> holds, and \<^verbatim>\<open>True == 1\<close>.\<close>

fun isinstance_str :: "pyval \<Rightarrow> bool" where
  "isinstance_str (PStr s) = True"
| "isinstance_str v = False"

fun isinstance_int :: "pyval \<Rightarrow> bool" where
  "isinstance_int (PInt n) = True"
| "isinstance_int (PBool b) = True"
| "isinstance_int v = False"

fun int_value :: "pyval \<Rightarrow> int option" where
  "int_value (PInt n) = Some n"
| "int_value (PBool b) = Some (if b then 1 else 0)"
| "int_value v = None"

text \<open>\<^verbatim>\<open>value in range(lo, hi)\<close>: true for the integers (and booleans) from \<open>lo\<close> up to,
  not including, \<open>hi\<close>; false for every other value.\<close>

definition in_range :: "pyval \<Rightarrow> int \<Rightarrow> int \<Rightarrow> bool" where
  "in_range v lo hi = (case int_value v of None \<Rightarrow> False | Some n \<Rightarrow> lo \<le> n \<and> n < hi)"

subsection \<open>\<^verbatim>\<open>str\<close> and \<^verbatim>\<open>repr\<close>\<close>

definition digit_char :: "nat \<Rightarrow> char" where
  "digit_char d = ''0123456789'' ! d"

fun nat_str :: "nat \<Rightarrow> string" where
  "nat_str n = (if n < 10 then [digit_char n] else nat_str (n div 10) @ [digit_char (n mod 10)])"

declare nat_str.simps [simp del]

definition int_str :: "int \<Rightarrow> string" where
  "int_str i = (if i < 0 then CHR ''-'' # nat_str (nat (- i)) else nat_str (nat i))"

text \<open>The \<^verbatim>\<open>repr\<close> of a \<^verbatim>\<open>str\<close>: double quotes when the text holds a single quote and
  no double quote, single quotes otherwise; the quote and the backslash escaped, tab,
  newline and carriage return by letter, every other unprintable code point as
  \<^verbatim>\<open>\xNN\<close>.\<close>

definition repr_quote :: "string \<Rightarrow> char" where
  "repr_quote s = (if CHR 0x27 \<in> set s \<and> CHR 0x22 \<notin> set s then CHR 0x22 else CHR 0x27)"

definition hex2 :: "nat \<Rightarrow> string" where
  "hex2 n = [''0123456789abcdef'' ! (n div 16), ''0123456789abcdef'' ! (n mod 16)]"

definition printable :: "char \<Rightarrow> bool" where
  "printable c = (let n = (of_char c :: nat) in (32 \<le> n \<and> n < 127) \<or> (161 \<le> n \<and> n \<noteq> 173))"

definition repr_char :: "char \<Rightarrow> char \<Rightarrow> string" where
  "repr_char q c =
     (if c = q \<or> c = CHR 0x5C then [CHR 0x5C, c]
      else if c = CHR 0x09 then [CHR 0x5C, CHR ''t'']
      else if c = CHR 0x0A then [CHR 0x5C, CHR ''n'']
      else if c = CHR 0x0D then [CHR 0x5C, CHR ''r'']
      else if printable c then [c]
      else [CHR 0x5C, CHR ''x''] @ hex2 (of_char c))"

definition str_repr :: "string \<Rightarrow> string" where
  "str_repr s = (let q = repr_quote s in q # concat (map (repr_char q) s) @ [q])"

fun join :: "string \<Rightarrow> string list \<Rightarrow> string" where
  "join sep [] = []"
| "join sep [x] = x"
| "join sep (x # y # ys) = x @ sep @ join sep (y # ys)"

primrec py_repr :: "pyval \<Rightarrow> string" where
  "py_repr PNone = ''None''"
| "py_repr (PBool b) = (if b then ''True'' else ''False'')"
| "py_repr (PInt n) = int_str n"
| "py_repr (PStr s) = str_repr s"
| "py_repr (PList xs) = ''['' @ join '', '' (map py_repr xs) @ '']''"
| "py_repr (PDict kvs) =
     ''{'' @ join '', '' (map (\<lambda>(k, v). k @ '': '' @ v) (map (map_prod py_repr py_repr) kvs)) @ ''}''"

text \<open>The text of \<^verbatim>\<open>str(value)\<close>: the text itself for a \<^verbatim>\<open>str\<close>, the \<^verbatim>\<open>repr\<close>
  for the other values.\<close>

definition py_str :: "pyval \<Rightarrow> string" where
  "py_str v = (case v of PStr s \<Rightarrow> s | _ \<Rightarrow> py_repr v)"

definition type_name :: "pyval \<Rightarrow> string" where
  "type_name v =
     (case v of PNone \<Rightarrow> ''NoneType'' | PBool b \<Rightarrow> ''bool'' | PInt n \<Rightarrow> ''int''
      | PStr s \<Rightarrow> ''str'' | PList xs \<Rightarrow> ''list'' | PDict kvs \<Rightarrow> ''dict'')"

section \<open>Exceptions\<close>

text \<open>
  The exceptions of the model are classes derived from \<^verbatim>\<open>Exception\<close>: what the code
  raises itself and what \<^verbatim>\<open>open\<close>, \<^verbatim>\<open>read\<close> and the parsers raise. An
  \<^verbatim>\<open>assert\<close> with no message raises \<open>AssertionError None\<close>, one with a message
  \<open>AssertionError (Some msg)\<close>. \<open>OtherException\<close> carries a class name and a message.
  Interrupts that derive from \<^verbatim>\<open>BaseException\<close> only are not part of the model.
\<close>

datatype exn =
    AssertionError "string option"
  | AttributeError string
  | KeyError pyval
  | OSError string
  | TypeError string
  | ValueError string
  | OtherException string string

datatype 'a result = Raise exn | Return 'a

definition bind :: "'a result \<Rightarrow> ('a \<Rightarrow> 'b result) \<Rightarrow> 'b result" where
  "bind m f = (case m of Raise e \<Rightarrow> Raise e | Return x \<Rightarrow> f x)"

text \<open>\<^verbatim>\<open>str(e)\<close>, as the handler of \<^verbatim>\<open>import_config\<close> prints it.\<close>

definition exn_str :: "exn \<Rightarrow> string" where
  "exn_str e =
     (case e of
        AssertionError None \<Rightarrow> []
      | AssertionError (Some msg) \<Rightarrow> msg
      | AttributeError msg \<Rightarrow> msg
      | KeyError k \<Rightarrow> py_repr k
      | OSError msg \<Rightarrow> msg
      | TypeError msg \<Rightarrow> msg
      | ValueError msg \<Rightarrow> msg
      | OtherException cls msg \<Rightarrow> msg)"

text \<open>\<^verbatim>\<open>type(e).__name__\<close>, the name of the class of an exception.\<close>

definition exn_class_name :: "exn \<Rightarrow> string" where
  "exn_class_name e =
     (case e of
        AssertionError msg \<Rightarrow> ''AssertionError''
      | AttributeError msg \<Rightarrow> ''AttributeError''
      | KeyError k \<Rightarrow> ''KeyError''
      | OSError msg \<Rightarrow> ''OSError''
      | TypeError msg \<Rightarrow> ''TypeError''
      | ValueError msg \<Rightarrow> ''ValueError''
      | OtherException cls msg \<Rightarrow> cls)"

subsection \<open>Fields of an f-string\<close>

text \<open>
  CPython (from 3.11 on, and the later releases of 3.10) converts an \<^verbatim>\<open>int\<close> to a
  \<^verbatim>\<open>str\<close> only when it has at most \<^verbatim>\<open>sys.int_info.default_max_str_digits\<close>, 4300,
  decimal digits, the sign not counted: for a longer one \<^verbatim>\<open>str\<close>, \<^verbatim>\<open>repr\<close> and an
  f-string field raise \<^verbatim>\<open>ValueError\<close>, also when the \<^verbatim>\<open>int\<close> is an element of a
  \<^verbatim>\<open>list\<close> or a \<^verbatim>\<open>dict\<close> that is printed. \<open>format_field v\<close> is what the field
  \<^verbatim>\<open>{value}\<close> of an f-string evaluates to.
\<close>

definition int_max_str_digits :: nat where
  "int_max_str_digits = 4300"

definition digit_limit_message :: string where
  "digit_limit_message =
     ''Exceeds the limit (4300 digits) for integer string conversion; '' @
     ''use sys.set_int_max_str_digits() to increase the limit''"

primrec over_digit_limit :: "pyval \<Rightarrow> bool" where
  "over_digit_limit PNone = False"
| "over_digit_limit (PBool b) = False"
| "over_digit_limit (PInt n) = (10 ^ int_max_str_digits \<le> \<bar>n\<bar>)"
| "over_digit_limit (PStr s) = False"
| "over_digit_limit (PList xs) = (True \<in> set (map over_digit_limit xs))"
| "over_digit_limit (PDict kvs) =
     (True \<in> set (map (\<lambda>(k, v). k \<or> v) (map (map_prod over_digit_limit over_digit_limit) kvs)))"

definition format_field :: "pyval \<Rightarrow> string result" where
  "format_field v = (if over_digit_limit v then Raise (ValueError digit_limit_message) else Return (py_str v))"

text \<open>\<^verbatim>\<open>assert condition, message\<close> when the condition is false: the message is
  evaluated, which may raise, and \<^verbatim>\<open>AssertionError(message)\<close> is raised.\<close>

definition assert_fails :: "string result \<Rightarrow> unit result" where
  "assert_fails message = bind message (\<lambda>msg. Raise (AssertionError (Some msg)))"

section \<open>The regular expression of the address check\<close>

text \<open>
  The pattern \<^verbatim>\<open>_ipv4_regex\<close> uses literals, one character range and bounded greedy
  repetition. \<open>rmatch r s\<close> lists, in the order a backtracking matcher tries them, the
  rests of \<open>s\<close> after a match of \<open>r\<close> at the start of \<open>s\<close>. \<^verbatim>\<open>re.match\<close> matches at
  the start of the string only and does not require the match to reach its end.
\<close>

datatype regex =
    Lit char
  | CharRange char char
  | Seq regex regex
  | Repeat regex nat nat

function rmatch :: "regex \<Rightarrow> string \<Rightarrow> string list" where
  "rmatch (Lit a) s = (case s of [] \<Rightarrow> [] | c # cs \<Rightarrow> if c = a then [cs] else [])"
| "rmatch (CharRange lo hi) s =
     (case s of [] \<Rightarrow> []
      | c # cs \<Rightarrow>
          if (of_char lo :: nat) \<le> of_char c \<and> (of_char c :: nat) \<le> of_char hi then [cs] else [])"
| "rmatch (Seq r1 r2) s = concat (map (rmatch r2) (rmatch r1 s))"
| "rmatch (Repeat r m 0) s = (if m = 0 then [s] else [])"
| "rmatch (Repeat r m (Suc n)) s =
     concat (map (rmatch (Repeat r (m - 1) n)) (rmatch r s)) @ (if m = 0 then [s] else [])"
  by pat_completeness auto
termination
  by (relation "measures [\<lambda>(r, s). size r, \<lambda>(r, s). (case r of Repeat _ _ n \<Rightarrow> n | _ \<Rightarrow> 0)]") auto

definition re_match :: "regex \<Rightarrow> string \<Rightarrow> bool" where
  "re_match r s = (rmatch r s \<noteq> [])"

definition digits_1_3 :: regex where
  "digits_1_3 = Repeat (CharRange CHR ''0'' CHR ''9'') 1 3"

definition dot :: regex where
  "dot = Lit CHR ''.''"

definition ipv4_regex :: regex where
  "ipv4_regex =
     Seq digits_1_3 (Seq dot (Seq digits_1_3 (Seq dot (Seq digits_1_3 (Seq dot digits_1_3)))))"

text \<open>
  The strings a pattern denotes. \<open>rmatch\<close> is sound and complete for it: the rests it
  lists are those of the splits of the input into a string of the pattern and a rest
  (\<open>set_rmatch\<close> below).
\<close>

function lang :: "regex \<Rightarrow> string set" where
  "lang (Lit a) = {[a]}"
| "lang (CharRange lo hi) = {[c] | c. (of_char lo :: nat) \<le> of_char c \<and> (of_char c :: nat) \<le> of_char hi}"
| "lang (Seq r1 r2) = {p1 @ p2 | p1 p2. p1 \<in> lang r1 \<and> p2 \<in> lang r2}"
| "lang (Repeat r m 0) = (if m = 0 then {[]} else {})"
| "lang (Repeat r m (Suc n)) =
     {p1 @ p2 | p1 p2. p1 \<in> lang r \<and> p2 \<in> lang (Repeat r (m - 1) n)} \<union> (if m = 0 then {[]} else {})"
  by pat_completeness auto
termination
  by (relation "measures [size, \<lambda>r. (case r of Repeat _ _ n \<Rightarrow> n | _ \<Rightarrow> 0)]") auto

section \<open>The configuration object and its guarded wrapper\<close>

text \<open>
  The dataclass \<^verbatim>\<open>Config\<close>. Its fields are annotated \<^verbatim>\<open>str\<close> and \<^verbatim>\<open>int\<close>, which
  Python does not enforce: \<^verbatim>\<open>Config(None, None)\<close> is how the parsers start.
\<close>

record Config =
  ip :: pyval
  port :: pyval

text \<open>The attributes of an instance, \<^verbatim>\<open>config.__dict__.keys()\<close>, in the order of
  declaration, and \<^verbatim>\<open>setattr\<close> for them.\<close>

datatype attr = Attr_ip | Attr_port

fun attr_name :: "attr \<Rightarrow> string" where
  "attr_name Attr_ip = ''ip''"
| "attr_name Attr_port = ''port''"

definition Config_dict_keys :: "Config \<Rightarrow> attr list" where
  "Config_dict_keys config = [Attr_ip, Attr_port]"

fun setattr :: "Config \<Rightarrow> attr \<Rightarrow> pyval \<Rightarrow> Config" where
  "setattr config Attr_ip v = config\<lparr>ip := v\<rparr>"
| "setattr config Attr_port v = config\<lparr>port := v\<rparr>"

text \<open>
  A \<^verbatim>\<open>GuardedConfig\<close> holds a reference to the object it wraps, which the caller may
  hold as well, so objects live in a store and the wrapper's \<^verbatim>\<open>_config\<close> is an
  address. Every address holds an object: Python has no dangling reference.
\<close>

type_synonym ref = nat

type_synonym heap = "ref \<Rightarrow> Config"

record GuardedConfig =
  uconfig :: ref

definition port_min :: int where
  "port_min = 0"

definition port_max :: int where
  "port_max = 65535"

definition GuardedConfig_ip :: "GuardedConfig \<Rightarrow> heap \<Rightarrow> pyval" where
  "GuardedConfig_ip self h = ip (h (uconfig self))"

definition GuardedConfig_port :: "GuardedConfig \<Rightarrow> heap \<Rightarrow> pyval" where
  "GuardedConfig_port self h = port (h (uconfig self))"

text \<open>The two setters return what the call raises or returns, and the store after it.
  An \<^verbatim>\<open>assert\<close> that fails raises before the assignment is reached (the interpreter
  runs without \<^verbatim>\<open>-O\<close>, which would drop the asserts). The message of the second
  \<^verbatim>\<open>assert\<close> of each setter is an f-string with the value as its field.\<close>

definition ip_message :: "pyval \<Rightarrow> string result" where
  "ip_message v =
     bind (format_field v) (\<lambda>s. Return (''ip '' @ [CHR 0x27] @ s @ [CHR 0x27] @ '' does not have correct format''))"

definition port_message :: "pyval \<Rightarrow> string result" where
  "port_message v = bind (format_field v) (\<lambda>s. Return (''port '' @ s @ '' is not in valid range''))"

definition GuardedConfig_set_ip :: "GuardedConfig \<Rightarrow> pyval \<Rightarrow> heap \<Rightarrow> unit result \<times> heap" where
  "GuardedConfig_set_ip self v h =
     (if \<not> isinstance_str v then (Raise (AssertionError None), h)
      else if \<not> re_match ipv4_regex (py_str v) then (assert_fails (ip_message v), h)
      else (Return (), h(uconfig self := setattr (h (uconfig self)) Attr_ip v)))"

definition GuardedConfig_set_port :: "GuardedConfig \<Rightarrow> pyval \<Rightarrow> heap \<Rightarrow> unit result \<times> heap" where
  "GuardedConfig_set_port self v h =
     (if \<not> isinstance_int v then (Raise (AssertionError None), h)
      else if \<not> in_range v port_min (port_max + 1)
        then (assert_fails (port_message v), h)
      else (Return (), h(uconfig self := setattr (h (uconfig self)) Attr_port v)))"





section \<open>The parsers\<close>

text \<open>
  What \<^verbatim>\<open>import_config\<close> takes from outside the repository: the file system
  (\<^verbatim>\<open>open(path, "r")\<close> raises or gives a file, whose \<^verbatim>\<open>read()\<close> raises or gives its
  text), the two deserialisers, and the standard output: \<^verbatim>\<open>print(line)\<close> writes the line
  or raises (\<^verbatim>\<open>UnicodeEncodeError\<close> when the output cannot encode the line, \<^verbatim>\<open>OSError\<close>
  or \<^verbatim>\<open>ValueError\<close> when it is broken or closed).
\<close>

type_synonym py_file = "string result"

record env =
  open_r :: "string \<Rightarrow> py_file result"
  json_loads :: "string \<Rightarrow> pyval result"
  yaml_load :: "string \<Rightarrow> pyval result"
  print_line :: "string \<Rightarrow> unit result"

text \<open>\<^verbatim>\<open>d.keys()\<close>, and \<^verbatim>\<open>d[key]\<close> for a key that is a \<^verbatim>\<open>str\<close>. Only a \<^verbatim>\<open>dict\<close> has
  \<^verbatim>\<open>keys\<close>, and only a \<^verbatim>\<open>dict\<close> can be indexed by a \<^verbatim>\<open>str\<close>. A key of a \<^verbatim>\<open>dict\<close>
  equals a \<^verbatim>\<open>str\<close> only when it is that \<^verbatim>\<open>str\<close>.\<close>

definition py_keys :: "pyval \<Rightarrow> pyval list result" where
  "py_keys d =
     (case d of
        PDict kvs \<Rightarrow> Return (map fst kvs)
      | _ \<Rightarrow> Raise (AttributeError
                ([CHR 0x27] @ type_name d @ [CHR 0x27] @ '' object has no attribute ''
                 @ [CHR 0x27] @ ''keys'' @ [CHR 0x27])))"

definition py_getitem :: "pyval \<Rightarrow> string \<Rightarrow> pyval result" where
  "py_getitem d key =
     (case d of
        PDict kvs \<Rightarrow>
          (case map_of kvs (PStr key) of None \<Rightarrow> Raise (KeyError (PStr key)) | Some v \<Rightarrow> Return v)
      | PStr s \<Rightarrow> Raise (TypeError ''string indices must be integers'')
      | PList xs \<Rightarrow> Raise (TypeError ''list indices must be integers or slices, not str'')
      | _ \<Rightarrow> Raise (TypeError ([CHR 0x27] @ type_name d @ [CHR 0x27] @ '' object is not subscriptable'')))"

text \<open>The loop \<^verbatim>\<open>for key in config.__dict__.keys(): setattr(config, key, d[key])\<close>.\<close>

fun copy_attrs :: "attr list \<Rightarrow> pyval \<Rightarrow> Config \<Rightarrow> Config result" where
  "copy_attrs [] d config = Return config"
| "copy_attrs (key # keys) d config =
     bind (py_getitem d (attr_name key)) (\<lambda>v. copy_attrs keys d (setattr config key v))"

text \<open>
  The body of the \<^verbatim>\<open>try\<close> statement, the same in both parsers but for the
  deserialiser \<open>loads\<close>. \<open>Return None\<close> is the \<^verbatim>\<open>return None\<close> of the key check,
  \<open>Return (Some config)\<close> the \<^verbatim>\<open>return config\<close> that follows the statement. Two key
  views are unequal when they differ as sets.
\<close>

definition import_config_try :: "(string \<Rightarrow> pyval result) \<Rightarrow> env \<Rightarrow> string \<Rightarrow> Config option result" where
  "import_config_try loads e path =
     bind (open_r e path) (\<lambda>f.
       let config = \<lparr>ip = PNone, port = PNone\<rparr> in
       bind f (\<lambda>text.
       bind (loads text) (\<lambda>d.
       bind (py_keys d) (\<lambda>ks.
         if set ks \<noteq> set (map (PStr \<circ> attr_name) (Config_dict_keys config)) then Return None
         else bind (copy_attrs (Config_dict_keys config) d config) (\<lambda>config'. Return (Some config'))))))"

text \<open>
  \<^verbatim>\<open>except Exception as e\<close> prints one line and returns \<^verbatim>\<open>None\<close>. The \<^verbatim>\<open>print\<close> is
  inside the handler and outside every \<^verbatim>\<open>try\<close>: what it raises leaves the function. The
  result is what the call raises or returns, and the lines it prints.
\<close>

definition log_line :: "exn \<Rightarrow> string" where
  "log_line x = ''import_config(), Exception, e: '' @ exn_str x"

definition except_Exception :: "env \<Rightarrow> Config option result \<Rightarrow> Config option result \<times> string list" where
  "except_Exception e r =
     (case r of
        Raise x \<Rightarrow>
          (case print_line e (log_line x) of
             Raise x' \<Rightarrow> (Raise x', [])
           | Return u \<Rightarrow> (Return None, [log_line x]))
      | Return c \<Rightarrow> (Return c, []))"

definition JsonConfigParser_import_config :: "env \<Rightarrow> string \<Rightarrow> Config option result \<times> string list" where
  "JsonConfigParser_import_config e path = except_Exception e (import_config_try (json_loads e) e path)"

definition YamlConfigParser_import_config :: "env \<Rightarrow> string \<Rightarrow> Config option result \<times> string list" where
  "YamlConfigParser_import_config e path = except_Exception e (import_config_try (yaml_load e) e path)"

section \<open>The words of the specification\<close>

text \<open>
  A string of four groups of one to three digits, separated by dots: the fields between
  the dots are four, each of one to three digits.
\<close>

definition is_digit :: "char \<Rightarrow> bool" where
  "is_digit c = (c \<in> set ''0123456789'')"

fun split_on :: "char \<Rightarrow> string \<Rightarrow> string list" where
  "split_on sep [] = [[]]"
| "split_on sep (c # cs) =
     (if c = sep then [] # split_on sep cs
      else (case split_on sep cs of [] \<Rightarrow> [[c]] | w # ws \<Rightarrow> (c # w) # ws))"

definition digit_group :: "string \<Rightarrow> bool" where
  "digit_group g = (1 \<le> length g \<and> length g \<le> 3 \<and> list_all is_digit g)"

definition dotted_quad :: "string \<Rightarrow> bool" where
  "dotted_quad s = (length (split_on CHR ''.'' s) = 4 \<and> list_all digit_group (split_on CHR ''.'' s))"

text \<open>A string that begins with such a dotted quad.\<close>

definition starts_with_dotted_quad :: "string \<Rightarrow> bool" where
  "starts_with_dotted_quad s = list_ex dotted_quad (prefixes s)"

text \<open>A store for the examples: every object is a \<^verbatim>\<open>Config("123.123.123.123", 6321)\<close>.\<close>

definition example_heap :: heap where
  "example_heap = (\<lambda>r. \<lparr>ip = PStr ''123.123.123.123'', port = PInt 6321\<rparr>)"

text \<open>The validity predicates as the specification words them: the address is such a
  dotted quad, the port an integer from 0 to 65535.\<close>

definition spec_valid_ip :: "pyval \<Rightarrow> bool" where
  "spec_valid_ip v = (case v of PStr s \<Rightarrow> dotted_quad s | _ \<Rightarrow> False)"

definition spec_valid_port :: "pyval \<Rightarrow> bool" where
  "spec_valid_port v = (case int_value v of None \<Rightarrow> False | Some n \<Rightarrow> 0 \<le> n \<and> n \<le> 65535)"

text \<open>A call fails with an error of a given name: it raises an exception of the class
  of that name.\<close>

definition fails_with :: "'a result \<Rightarrow> string \<Rightarrow> bool" where
  "fails_with r cls = (case r of Raise x \<Rightarrow> exn_class_name x = cls | Return y \<Rightarrow> False)"


text \<open>A file system and a deserialiser for the examples, a standard output that takes
  every line, and one that encodes to ASCII.\<close>

definition config_text :: string where
  \<open>config_text = ''{"ip": "1.2.3.4", "port": 80}''\<close>

definition extra_text :: string where
  \<open>extra_text = ''{"ip": "1.2.3.4", "port": 80, "extra": 1}''\<close>

definition untyped_text :: string where
  \<open>untyped_text = ''{"ip": 5, "port": "eighty"}''\<close>

definition example_loads :: "string \<Rightarrow> pyval result" where
  "example_loads text =
     (if text = config_text
        then Return (PDict [(PStr ''ip'', PStr ''1.2.3.4''), (PStr ''port'', PInt 80)])
      else if text = extra_text
        then Return (PDict [(PStr ''ip'', PStr ''1.2.3.4''), (PStr ''port'', PInt 80), (PStr ''extra'', PInt 1)])
      else if text = untyped_text
        then Return (PDict [(PStr ''ip'', PInt 5), (PStr ''port'', PStr ''eighty'')])
      else if text = ''[1, 2]''
        then Return (PList [PInt 1, PInt 2])
      else Raise (ValueError ''Expecting value: line 1 column 1 (char 0)''))"

definition example_open :: "string \<Rightarrow> py_file result" where
  "example_open path =
     (if path = ''config.json'' then Return (Return config_text)
      else if path = ''extra.json'' then Return (Return extra_text)
      else if path = ''untyped.json'' then Return (Return untyped_text)
      else if path = ''list.json'' then Return (Return ''[1, 2]'')
      else if path = ''empty.json'' then Return (Return [])
      else if path = ''binary.json'' then Return (Raise (ValueError ''invalid start byte''))
      else Raise (OSError (''[Errno 2] No such file or directory: '' @ str_repr path)))"


definition example_env :: env where
  "example_env =
     \<lparr>open_r = example_open, json_loads = example_loads, yaml_load = example_loads,
      print_line = (\<lambda>line. Return ())\<rparr>"


section \<open>Properties of the model\<close>

lemma set_rmatch: "set (rmatch r s) = {q. \<exists>p \<in> lang r. s = p @ q}"
proof (induction r s rule: rmatch.induct)
  case (1 a s)
  then show ?case by (cases s) auto
next
  case (2 lo hi s)
  then show ?case by (cases s) auto
next
  case (3 r1 r2 s)
  then show ?case by (auto; fastforce)
next
  case (4 r m s)
  then show ?case by auto
next
  case (5 r m n s)
  then show ?case by (auto; fastforce)
qed

lemma re_match_iff_lang: "re_match r s \<longleftrightarrow> (\<exists>p \<in> lang r. prefix p s)"
proof -
  have "re_match r s \<longleftrightarrow> set (rmatch r s) \<noteq> {}"
    by (simp add: re_match_def)
  also have "\<dots> \<longleftrightarrow> (\<exists>p \<in> lang r. prefix p s)"
    unfolding set_rmatch prefix_def by blast
  finally show ?thesis .
qed

lemma digit_range: "((of_char CHR ''0'' :: nat) \<le> of_char c \<and> (of_char c :: nat) \<le> of_char CHR ''9'') = is_digit c"
  by (cases c) (simp add: is_digit_def)

lemma lang_Repeat_chars:
  assumes "lang r = {[c] | c. P c}"
  shows "p \<in> lang (Repeat r m n) \<longleftrightarrow> m \<le> length p \<and> length p \<le> n \<and> list_all P p"
proof (induction n arbitrary: m p)
  case 0
  show ?case by auto
next
  case (Suc n)
  have step: "(\<exists>p1 p2. p = p1 @ p2 \<and> p1 \<in> lang r \<and> p2 \<in> L) \<longleftrightarrow>
      (\<exists>c p2. p = c # p2 \<and> P c \<and> p2 \<in> L)" for L
  proof
    assume "\<exists>p1 p2. p = p1 @ p2 \<and> p1 \<in> lang r \<and> p2 \<in> L"
    then show "\<exists>c p2. p = c # p2 \<and> P c \<and> p2 \<in> L"
      unfolding assms by auto
  next
    assume "\<exists>c p2. p = c # p2 \<and> P c \<and> p2 \<in> L"
    then obtain c p2 where "p = [c] @ p2" "[c] \<in> lang r" "p2 \<in> L"
      unfolding assms by auto
    then show "\<exists>p1 p2. p = p1 @ p2 \<and> p1 \<in> lang r \<and> p2 \<in> L"
      by blast
  qed
  have "p \<in> lang (Repeat r m (Suc n)) \<longleftrightarrow>
      (\<exists>p1 p2. p = p1 @ p2 \<and> p1 \<in> lang r \<and> p2 \<in> lang (Repeat r (m - 1) n)) \<or> (m = 0 \<and> p = [])"
    by auto
  also have "\<dots> \<longleftrightarrow>
      (\<exists>c p2. p = c # p2 \<and> P c \<and> p2 \<in> lang (Repeat r (m - 1) n)) \<or> (m = 0 \<and> p = [])"
    unfolding step ..
  also have "\<dots> \<longleftrightarrow>
      (\<exists>c p2. p = c # p2 \<and> P c \<and> m - 1 \<le> length p2 \<and> length p2 \<le> n \<and> list_all P p2)
      \<or> (m = 0 \<and> p = [])"
    using Suc.IH by simp
  also have "\<dots> \<longleftrightarrow> m \<le> length p \<and> length p \<le> Suc n \<and> list_all P p"
    by (cases p) auto
  finally show ?case .
qed

lemma lang_digits_1_3: "g \<in> lang digits_1_3 \<longleftrightarrow> digit_group g"
proof -
  have "lang (CharRange CHR ''0'' CHR ''9'') = {[c] | c. is_digit c}"
    using digit_range by simp
  then show ?thesis
    unfolding digits_1_3_def digit_group_def by (rule lang_Repeat_chars)
qed

lemma in_lang_Seq: "p \<in> lang (Seq r1 r2) \<longleftrightarrow> (\<exists>p1 p2. p = p1 @ p2 \<and> p1 \<in> lang r1 \<and> p2 \<in> lang r2)"
  by simp

lemma in_lang_dot: "p \<in> lang dot \<longleftrightarrow> p = ''.''"
  by (simp add: dot_def)

lemma lang_ipv4_regex:
  "p \<in> lang ipv4_regex \<longleftrightarrow>
     (\<exists>a b c d. p = a @ ''.'' @ b @ ''.'' @ c @ ''.'' @ d
        \<and> digit_group a \<and> digit_group b \<and> digit_group c \<and> digit_group d)"
  by (simp only: ipv4_regex_def in_lang_Seq in_lang_dot lang_digits_1_3) fastforce

lemma split_on_not_Nil: "split_on sep s \<noteq> []"
  by (induction s) (auto split: list.splits)

lemma split_on_no_sep: "sep \<notin> set g \<Longrightarrow> split_on sep g = [g]"
  by (induction g) auto

lemma split_on_append: "sep \<notin> set g \<Longrightarrow> split_on sep (g @ sep # rest) = g # split_on sep rest"
  by (induction g) auto

lemma join_split_on: "join [sep] (split_on sep s) = s"
proof (induction s)
  case Nil
  show ?case by simp
next
  case (Cons c s)
  obtain w ws where w: "split_on sep s = w # ws"
    using split_on_not_Nil [of sep s] by (cases "split_on sep s") auto
  show ?case
    using Cons w by (cases ws) auto
qed

lemma not_digit_dot: "\<not> is_digit CHR ''.''"
  by (simp add: is_digit_def)

lemma digit_group_no_dot: "digit_group g \<Longrightarrow> CHR ''.'' \<notin> set g"
  unfolding digit_group_def list_all_iff using not_digit_dot by blast


lemma dotted_quad_iff:
  "dotted_quad p \<longleftrightarrow>
     (\<exists>a b c d. p = a @ ''.'' @ b @ ''.'' @ c @ ''.'' @ d
        \<and> digit_group a \<and> digit_group b \<and> digit_group c \<and> digit_group d)"
proof
  assume "dotted_quad p"
  then have len: "length (split_on CHR ''.'' p) = 4" and all: "list_all digit_group (split_on CHR ''.'' p)"
    by (simp_all add: dotted_quad_def)
  from len obtain a b c d where f: "split_on CHR ''.'' p = [a, b, c, d]"
    by (auto simp: numeral_eq_Suc length_Suc_conv)
  have "join ''.'' [a, b, c, d] = p"
    using join_split_on [of "CHR ''.''" p] f by simp
  then have "p = a @ ''.'' @ b @ ''.'' @ c @ ''.'' @ d"
    by simp
  moreover have "digit_group a \<and> digit_group b \<and> digit_group c \<and> digit_group d"
    using all f by simp
  ultimately show "\<exists>a b c d. p = a @ ''.'' @ b @ ''.'' @ c @ ''.'' @ d
        \<and> digit_group a \<and> digit_group b \<and> digit_group c \<and> digit_group d"
    by blast
next
  assume "\<exists>a b c d. p = a @ ''.'' @ b @ ''.'' @ c @ ''.'' @ d
        \<and> digit_group a \<and> digit_group b \<and> digit_group c \<and> digit_group d"
  then obtain a b c d where p: "p = a @ ''.'' @ b @ ''.'' @ c @ ''.'' @ d"
    and g: "digit_group a" "digit_group b" "digit_group c" "digit_group d"
    by blast
  have "split_on CHR ''.'' p = [a, b, c, d]"
    unfolding p using g
    by (simp add: split_on_append split_on_no_sep digit_group_no_dot)
  then show "dotted_quad p"
    using g by (simp add: dotted_quad_def)
qed

lemma dotted_quad_lang: "dotted_quad p \<longleftrightarrow> p \<in> lang ipv4_regex"
  by (simp only: dotted_quad_iff lang_ipv4_regex)

lemma starts_with_dotted_quad_iff: "starts_with_dotted_quad s \<longleftrightarrow> (\<exists>p. prefix p s \<and> dotted_quad p)"
  by (auto simp add: starts_with_dotted_quad_def list_ex_iff in_set_prefixes)

lemma re_match_ipv4_regex: "re_match ipv4_regex s \<longleftrightarrow> starts_with_dotted_quad s"
  unfolding re_match_iff_lang starts_with_dotted_quad_iff dotted_quad_lang by blast

lemma py_str_PStr: "py_str (PStr s) = s"
  by (simp add: py_str_def)

lemma format_field_PStr: "format_field (PStr s) = Return s"
  by (simp add: format_field_def py_str_def)

lemma assert_fails_not_Return: "assert_fails message \<noteq> Return u"
  by (cases message) (simp_all add: assert_fails_def bind_def)

lemma set_ip_PStr:
  "GuardedConfig_set_ip self (PStr s) h =
     (if starts_with_dotted_quad s
      then (Return (), h(uconfig self := (h (uconfig self))\<lparr>ip := PStr s\<rparr>))
      else (Raise (AssertionError
              (Some (''ip '' @ [CHR 0x27] @ s @ [CHR 0x27] @ '' does not have correct format''))), h))"
  by (simp add: GuardedConfig_set_ip_def py_str_PStr re_match_ipv4_regex assert_fails_def
      ip_message_def format_field_PStr bind_def)

lemma set_ip_not_str:
  "\<not> isinstance_str v \<Longrightarrow> GuardedConfig_set_ip self v h = (Raise (AssertionError None), h)"
  by (simp add: GuardedConfig_set_ip_def)

lemma in_range_port: "in_range v port_min (port_max + 1) = spec_valid_port v"
  by (auto simp add: in_range_def spec_valid_port_def port_min_def port_max_def split: option.splits)

lemma set_port_int:
  "isinstance_int v \<Longrightarrow> GuardedConfig_set_port self v h =
     (if spec_valid_port v
      then (Return (), h(uconfig self := (h (uconfig self))\<lparr>port := v\<rparr>))
      else (assert_fails (port_message v), h))"
  by (simp add: GuardedConfig_set_port_def in_range_port)

lemma port_message_PInt:
  "assert_fails (port_message (PInt n)) =
     (if \<bar>n\<bar> < 10 ^ int_max_str_digits
      then Raise (AssertionError (Some (''port '' @ int_str n @ '' is not in valid range'')))
      else Raise (ValueError digit_limit_message))"
  by (simp add: assert_fails_def port_message_def format_field_def bind_def py_str_def not_le)

lemma set_port_PInt:
  "GuardedConfig_set_port self (PInt n) h =
     (if 0 \<le> n \<and> n \<le> 65535
      then (Return (), h(uconfig self := (h (uconfig self))\<lparr>port := PInt n\<rparr>))
      else if \<bar>n\<bar> < 10 ^ int_max_str_digits
      then (Raise (AssertionError (Some (''port '' @ int_str n @ '' is not in valid range''))), h)
      else (Raise (ValueError digit_limit_message), h))"
  by (simp add: set_port_int spec_valid_port_def port_message_PInt)

lemma under_digit_limit: "\<bar>n\<bar> < 100000 \<Longrightarrow> \<bar>n\<bar> < (10::int) ^ int_max_str_digits"
proof -
  assume a: "\<bar>n\<bar> < 100000"
  have "(10::int) ^ 5 \<le> 10 ^ int_max_str_digits"
    by (rule power_increasing) (simp_all add: int_max_str_digits_def)
  then show ?thesis using a by simp
qed

lemma digit_limit_big: "(100000::int) \<le> 10 ^ int_max_str_digits"
proof -
  have "(10::int) ^ 5 \<le> 10 ^ int_max_str_digits"
    by (rule power_increasing) (simp_all add: int_max_str_digits_def)
  then show ?thesis by simp
qed

lemma set_port_at_digit_limit:
  "GuardedConfig_set_port self (PInt (10 ^ int_max_str_digits)) h = (Raise (ValueError digit_limit_message), h)"
  using digit_limit_big by (simp add: set_port_PInt)

lemma set_port_not_int:
  "\<not> isinstance_int v \<Longrightarrow> GuardedConfig_set_port self v h = (Raise (AssertionError None), h)"
  by (simp add: GuardedConfig_set_port_def)

text \<open>The port half of the invariant of the wrapper: a \<^verbatim>\<open>port\<close> assignment that
  succeeds leaves an integer from 0 to 65535 in the wrapped object.\<close>

lemma successful_set_port:
  "GuardedConfig_set_port self v h = (Return (), h') \<Longrightarrow> spec_valid_port (port (h' (uconfig self)))"
proof (cases "isinstance_int v")
  case True
  assume "GuardedConfig_set_port self v h = (Return (), h')"
  then show ?thesis
    using True by (auto simp add: set_port_int assert_fails_not_Return split: if_splits)
next
  case False
  assume "GuardedConfig_set_port self v h = (Return (), h')"
  then show ?thesis
    using False by (simp add: set_port_not_int)
qed

lemma dotted_quad_starts: "dotted_quad p \<Longrightarrow> starts_with_dotted_quad (p @ q)"
  unfolding starts_with_dotted_quad_iff by (metis prefixI)

lemmas eval_dotted_quad = starts_with_dotted_quad_def dotted_quad_def digit_group_def is_digit_def



text \<open>An exception that leaves \<^verbatim>\<open>import_config\<close> is one that the \<^verbatim>\<open>print\<close> of the
  handler raised.\<close>

lemma except_Exception_raises:
  "fst (except_Exception e r) = Raise x \<Longrightarrow> \<exists>x0. r = Raise x0 \<and> print_line e (log_line x0) = Raise x"
  by (cases r) (auto simp add: except_Exception_def split: result.splits)





lemma Config_keys: "set (map (PStr \<circ> attr_name) (Config_dict_keys c)) = {PStr ''ip'', PStr ''port''}"
  by (simp add: Config_dict_keys_def)

lemma try_key_mismatch:
  "open_r e path = Return (Return text) \<Longrightarrow> loads text = Return (PDict kvs) \<Longrightarrow>
   set (map fst kvs) \<noteq> {PStr ''ip'', PStr ''port''} \<Longrightarrow>
     import_config_try loads e path = Return None"
  by (simp add: import_config_try_def bind_def py_keys_def Config_keys del: set_map)

lemma map_of_key: "k \<in> set (map fst kvs) \<Longrightarrow> \<exists>v. map_of kvs k = Some v"
  by (induction kvs) auto

lemma try_key_match:
  assumes "open_r e path = Return (Return text)" and "loads text = Return (PDict kvs)"
    and "set (map fst kvs) = {PStr ''ip'', PStr ''port''}"
  shows "\<exists>v1 v2. map_of kvs (PStr ''ip'') = Some v1 \<and> map_of kvs (PStr ''port'') = Some v2
    \<and> import_config_try loads e path = Return (Some \<lparr>ip = v1, port = v2\<rparr>)"
proof -
  obtain v1 where v1: "map_of kvs (PStr ''ip'') = Some v1"
    using map_of_key [of "PStr ''ip''" kvs] assms(3) by auto
  obtain v2 where v2: "map_of kvs (PStr ''port'') = Some v2"
    using map_of_key [of "PStr ''port''" kvs] assms(3) by auto
  have "import_config_try loads e path = Return (Some \<lparr>ip = v1, port = v2\<rparr>)"
    using assms
    by (simp add: import_config_try_def bind_def py_keys_def py_getitem_def v1 v2 Config_keys
        Config_dict_keys_def del: set_map)
  then show ?thesis using v1 v2 by blast
qed

lemma try_Some:
  assumes "import_config_try loads e path = Return (Some c)"
  shows "\<exists>text kvs. open_r e path = Return (Return text) \<and> loads text = Return (PDict kvs)
    \<and> set (map fst kvs) = {PStr ''ip'', PStr ''port''}
    \<and> map_of kvs (PStr ''ip'') = Some (ip c) \<and> map_of kvs (PStr ''port'') = Some (port c)"
proof -
  obtain f where f: "open_r e path = Return f"
    using assms by (cases "open_r e path") (simp_all add: import_config_try_def bind_def)
  obtain doc where t: "f = Return doc"
    using assms f by (cases f) (simp_all add: import_config_try_def bind_def)
  obtain d where d: "loads doc = Return d"
    using assms f t by (cases "loads doc") (simp_all add: import_config_try_def bind_def)
  obtain kvs where k: "d = PDict kvs"
    using assms f t d by (cases d) (simp_all add: import_config_try_def bind_def py_keys_def)
  have keys: "set (map fst kvs) = {PStr ''ip'', PStr ''port''}"
  proof (rule ccontr)
    assume "set (map fst kvs) \<noteq> {PStr ''ip'', PStr ''port''}"
    then have "import_config_try loads e path = Return None"
      using f t d k try_key_mismatch by simp
    then show False using assms by simp
  qed
  obtain v1 v2 where v: "map_of kvs (PStr ''ip'') = Some v1" "map_of kvs (PStr ''port'') = Some v2"
    "import_config_try loads e path = Return (Some \<lparr>ip = v1, port = v2\<rparr>)"
    using try_key_match [of e path doc loads kvs] f t d k keys by blast
  then have "c = \<lparr>ip = v1, port = v2\<rparr>"
    using assms by simp
  then show ?thesis
    using f t d k keys v by auto
qed

lemma except_Exception_Some:
  "except_Exception e r = (Return (Some c), out) \<Longrightarrow> r = Return (Some c)"
  by (cases r) (auto simp add: except_Exception_def split: result.splits)

lemmas eval_example = example_env_def example_open_def example_loads_def config_text_def
  extra_text_def untyped_text_def


section \<open>The claims\<close>

text \<open>
  C1: every string that is not a dotted quad of four groups of one to three digits must
  make the \<^verbatim>\<open>ip\<close> setter of the wrapper fail with the format error and leave the
  wrapped object unchanged; the docstring of the setter says \<^verbatim>\<open>Requires IPv4 format\<close>.
  The code does not do so: \<^verbatim>\<open>re.match\<close> looks for the pattern at the start of the
  string and the pattern has no anchor at its end, so the assignment of
  \<^verbatim>\<open>"1.2.3.4.5"\<close>, which is no dotted quad and no IPv4 address, raises nothing and
  stores the string in the wrapped object.
\<close>

theorem set_ip_stores_non_dotted_quad:
  "\<not> dotted_quad ''1.2.3.4.5''
   \<and> GuardedConfig_set_ip \<lparr>uconfig = 0\<rparr> (PStr ''1.2.3.4.5'') example_heap
       = (Return (), example_heap(0 := \<lparr>ip = PStr ''1.2.3.4.5'', port = PInt 6321\<rparr>))"
  by (simp add: set_ip_PStr eval_dotted_quad example_heap_def)

text \<open>
  C2 (as stated): for every integer from 0 to 65535 the \<^verbatim>\<open>port\<close> setter of the wrapper
  succeeds and assigns the value to the \<^verbatim>\<open>port\<close> of the wrapped object; for every other
  integer it fails with \<^verbatim>\<open>RangeError\<close> and the wrapped object is unchanged. The second
  half fails on the code as worded: the assignment of -1 raises the \<^verbatim>\<open>AssertionError\<close>
  of the range \<^verbatim>\<open>assert\<close>, no \<^verbatim>\<open>RangeError\<close>, and the assignment of an integer of
  4301 digits raises \<^verbatim>\<open>ValueError\<close>, because the message of the \<^verbatim>\<open>assert\<close> cannot be
  formatted.
\<close>

theorem set_port_range_error_counterexample:
  "GuardedConfig_set_port \<lparr>uconfig = 0\<rparr> (PInt (- 1)) example_heap
     = (Raise (AssertionError (Some ''port -1 is not in valid range'')), example_heap)
   \<and> \<not> fails_with (fst (GuardedConfig_set_port \<lparr>uconfig = 0\<rparr> (PInt (- 1)) example_heap)) ''RangeError''
   \<and> GuardedConfig_set_port \<lparr>uconfig = 0\<rparr> (PInt (10 ^ int_max_str_digits)) example_heap
     = (Raise (ValueError digit_limit_message), example_heap)
   \<and> \<not> fails_with (fst (GuardedConfig_set_port \<lparr>uconfig = 0\<rparr> (PInt (10 ^ int_max_str_digits)) example_heap))
         ''RangeError''"
proof -
  have a: "GuardedConfig_set_port \<lparr>uconfig = 0\<rparr> (PInt (- 1)) example_heap
     = (Raise (AssertionError (Some ''port -1 is not in valid range'')), example_heap)"
    using under_digit_limit [of "- 1"]
    by (simp add: set_port_PInt int_str_def nat_str.simps digit_char_def)
  have b: "GuardedConfig_set_port \<lparr>uconfig = 0\<rparr> (PInt (10 ^ int_max_str_digits)) example_heap
     = (Raise (ValueError digit_limit_message), example_heap)"
    by (rule set_port_at_digit_limit)
  show ?thesis
    by (simp add: a b fails_with_def exn_class_name_def)
qed

text \<open>
  C2 (amended): for every integer from 0 to 65535 the \<^verbatim>\<open>port\<close> setter of the wrapper
  succeeds and assigns the value to the \<^verbatim>\<open>port\<close> of the wrapped object; for every other
  integer (such as -1 and 65536) it fails and the store is unchanged: with the
  \<^verbatim>\<open>AssertionError\<close> of the range \<^verbatim>\<open>assert\<close>, whose message is
  \<^verbatim>\<open>port <value> is not in valid range\<close>, when the integer has at most 4300 decimal
  digits, and with the \<^verbatim>\<open>ValueError\<close> of the conversion of the integer to a
  \<^verbatim>\<open>str\<close> when it has more.
\<close>

theorem set_port_range:
  "GuardedConfig_set_port self (PInt n) h =
     (if 0 \<le> n \<and> n \<le> 65535
      then (Return (), h(uconfig self := (h (uconfig self))\<lparr>port := PInt n\<rparr>))
      else if \<bar>n\<bar> < 10 ^ int_max_str_digits
      then (Raise (AssertionError (Some (''port '' @ int_str n @ '' is not in valid range''))), h)
      else (Raise (ValueError digit_limit_message), h))"
  by (rule set_port_PInt)

theorem set_port_range_witness:
  "GuardedConfig_set_port \<lparr>uconfig = 0\<rparr> (PInt 0) example_heap
     = (Return (), example_heap(0 := \<lparr>ip = PStr ''123.123.123.123'', port = PInt 0\<rparr>))
   \<and> GuardedConfig_set_port \<lparr>uconfig = 0\<rparr> (PInt 65535) example_heap
     = (Return (), example_heap(0 := \<lparr>ip = PStr ''123.123.123.123'', port = PInt 65535\<rparr>))
   \<and> GuardedConfig_set_port \<lparr>uconfig = 0\<rparr> (PInt (- 1)) example_heap
     = (Raise (AssertionError (Some ''port -1 is not in valid range'')), example_heap)
   \<and> GuardedConfig_set_port \<lparr>uconfig = 0\<rparr> (PInt 65536) example_heap
     = (Raise (AssertionError (Some ''port 65536 is not in valid range'')), example_heap)"
  using set_port_range [of "\<lparr>uconfig = 0\<rparr>" 0 example_heap]
    set_port_range [of "\<lparr>uconfig = 0\<rparr>" 65535 example_heap]
    set_port_range [of "\<lparr>uconfig = 0\<rparr>" "- 1" example_heap]
    set_port_range [of "\<lparr>uconfig = 0\<rparr>" 65536 example_heap]
    under_digit_limit [of "- 1"] under_digit_limit [of 65536]
  by (simp add: example_heap_def int_str_def nat_str.simps digit_char_def)

text \<open>
  C3 (as stated): for every argument that is not a \<^verbatim>\<open>str\<close> the \<^verbatim>\<open>ip\<close> setter, and for
  every argument that is not an \<^verbatim>\<open>int\<close> the \<^verbatim>\<open>port\<close> setter, fails with
  \<^verbatim>\<open>TypeError\<close>, before any format or range check. The code has no \<^verbatim>\<open>TypeError\<close>
  here: the type check is an \<^verbatim>\<open>assert\<close>, and the assignment of 5 to \<^verbatim>\<open>ip\<close> and of
  \<^verbatim>\<open>"80"\<close> to \<^verbatim>\<open>port\<close> raises \<^verbatim>\<open>AssertionError\<close>.
\<close>

theorem setters_type_error_counterexample:
  "fst (GuardedConfig_set_ip \<lparr>uconfig = 0\<rparr> (PInt 5) example_heap) = Raise (AssertionError None)
   \<and> \<not> fails_with (fst (GuardedConfig_set_ip \<lparr>uconfig = 0\<rparr> (PInt 5) example_heap)) ''TypeError''
   \<and> fst (GuardedConfig_set_port \<lparr>uconfig = 0\<rparr> (PStr ''80'') example_heap) = Raise (AssertionError None)
   \<and> \<not> fails_with (fst (GuardedConfig_set_port \<lparr>uconfig = 0\<rparr> (PStr ''80'') example_heap)) ''TypeError''"
  by (simp add: set_ip_not_str set_port_not_int fails_with_def exn_class_name_def)

text \<open>
  C3 (amended): for every argument that is not a \<^verbatim>\<open>str\<close> the \<^verbatim>\<open>ip\<close> setter, and for
  every argument that is not an \<^verbatim>\<open>int\<close> the \<^verbatim>\<open>port\<close> setter, fails with the
  \<^verbatim>\<open>AssertionError\<close> of the type check (the one with no message) and leaves the store
  unchanged, whatever the format or range check would say: the type check comes first. A
  \<^verbatim>\<open>bool\<close> is an \<^verbatim>\<open>int\<close> in Python.
\<close>

theorem setters_check_type_first:
  "(\<not> isinstance_str v \<longrightarrow> GuardedConfig_set_ip self v h = (Raise (AssertionError None), h))
   \<and> (\<not> isinstance_int v \<longrightarrow> GuardedConfig_set_port self v h = (Raise (AssertionError None), h))"
  by (simp add: set_ip_not_str set_port_not_int)

theorem setters_check_type_first_witness:
  "GuardedConfig_set_ip \<lparr>uconfig = 0\<rparr> (PInt 5) example_heap = (Raise (AssertionError None), example_heap)
   \<and> GuardedConfig_set_ip \<lparr>uconfig = 0\<rparr> PNone example_heap = (Raise (AssertionError None), example_heap)
   \<and> GuardedConfig_set_port \<lparr>uconfig = 0\<rparr> (PStr ''80'') example_heap = (Raise (AssertionError None), example_heap)
   \<and> GuardedConfig_set_port \<lparr>uconfig = 0\<rparr> (PStr ''70000'') example_heap = (Raise (AssertionError None), example_heap)"
  using setters_check_type_first [of "PInt 5" "\<lparr>uconfig = 0\<rparr>" example_heap]
    setters_check_type_first [of PNone "\<lparr>uconfig = 0\<rparr>" example_heap]
    setters_check_type_first [of "PStr ''80''" "\<lparr>uconfig = 0\<rparr>" example_heap]
    setters_check_type_first [of "PStr ''70000''" "\<lparr>uconfig = 0\<rparr>" example_heap]
  by simp

text \<open>
  C4: for every dotted quad of four groups of one to three digits, whatever the numbers,
  the \<^verbatim>\<open>ip\<close> setter of the wrapper succeeds; reading \<^verbatim>\<open>ip\<close> through the wrapper
  afterwards gives that string, and so does reading the \<^verbatim>\<open>ip\<close> of the wrapped object.
  The same holds for \<^verbatim>\<open>port\<close> and every integer from 0 to 65535.
\<close>

theorem set_then_get:
  "(dotted_quad s \<longrightarrow>
      fst (GuardedConfig_set_ip self (PStr s) h) = Return ()
      \<and> GuardedConfig_ip self (snd (GuardedConfig_set_ip self (PStr s) h)) = PStr s
      \<and> ip (snd (GuardedConfig_set_ip self (PStr s) h) (uconfig self)) = PStr s)
   \<and> (0 \<le> n \<and> n \<le> 65535 \<longrightarrow>
      fst (GuardedConfig_set_port self (PInt n) h) = Return ()
      \<and> GuardedConfig_port self (snd (GuardedConfig_set_port self (PInt n) h)) = PInt n
      \<and> port (snd (GuardedConfig_set_port self (PInt n) h) (uconfig self)) = PInt n)"
proof -
  have "starts_with_dotted_quad s" if "dotted_quad s"
    using dotted_quad_starts [OF that, of "[]"] by simp
  then show ?thesis
    by (simp add: set_ip_PStr set_port_int spec_valid_port_def GuardedConfig_ip_def GuardedConfig_port_def)
qed

theorem set_then_get_witness:
  "fst (GuardedConfig_set_ip \<lparr>uconfig = 0\<rparr> (PStr ''999.999.999.999'') example_heap) = Return ()
   \<and> GuardedConfig_ip \<lparr>uconfig = 0\<rparr>
        (snd (GuardedConfig_set_ip \<lparr>uconfig = 0\<rparr> (PStr ''999.999.999.999'') example_heap))
      = PStr ''999.999.999.999''
   \<and> ip (snd (GuardedConfig_set_ip \<lparr>uconfig = 0\<rparr> (PStr ''999.999.999.999'') example_heap) 0)
      = PStr ''999.999.999.999''
   \<and> fst (GuardedConfig_set_port \<lparr>uconfig = 0\<rparr> (PInt 80) example_heap) = Return ()
   \<and> GuardedConfig_port \<lparr>uconfig = 0\<rparr>
        (snd (GuardedConfig_set_port \<lparr>uconfig = 0\<rparr> (PInt 80) example_heap)) = PInt 80
   \<and> port (snd (GuardedConfig_set_port \<lparr>uconfig = 0\<rparr> (PInt 80) example_heap) 0) = PInt 80"
proof -
  have a: "dotted_quad ''999.999.999.999''"
    by (simp add: eval_dotted_quad)
  show ?thesis
    using a set_then_get [of "''999.999.999.999''" "\<lparr>uconfig = 0\<rparr>" example_heap 80]
    by simp
qed

text \<open>
  C5: after a successful \<^verbatim>\<open>ip\<close> or \<^verbatim>\<open>port\<close> assignment through the wrapper, the
  field of the wrapped object must satisfy its validity predicate: the address is a
  dotted quad, the port an integer from 0 to 65535. For the port the code keeps it
  (\<open>successful_set_port\<close>). For the address it does not, by the same missing end anchor
  as in C1: the assignment of \<^verbatim>\<open>"1.2.3.4.5"\<close> succeeds, and the address of the wrapped
  object is then no dotted quad.
\<close>

theorem successful_set_ip_not_dotted_quad:
  "fst (GuardedConfig_set_ip \<lparr>uconfig = 0\<rparr> (PStr ''1.2.3.4.5'') example_heap) = Return ()
   \<and> \<not> spec_valid_ip (ip (snd (GuardedConfig_set_ip \<lparr>uconfig = 0\<rparr> (PStr ''1.2.3.4.5'') example_heap) 0))"
  by (simp add: set_ip_PStr eval_dotted_quad spec_valid_ip_def)

text \<open>
  C10: the format check matches the pattern at the start of the input only, so for every
  string that begins with a dotted quad, whatever follows it (\<^verbatim>\<open>"1.2.3.4.5"\<close>,
  \<^verbatim>\<open>"127.0.0.1abc"\<close>), the \<^verbatim>\<open>ip\<close> setter of the wrapper succeeds and stores the whole
  string in the wrapped object.
\<close>

theorem set_ip_accepts_dotted_quad_prefix:
  "dotted_quad p \<Longrightarrow>
     GuardedConfig_set_ip self (PStr (p @ q)) h
       = (Return (), h(uconfig self := (h (uconfig self))\<lparr>ip := PStr (p @ q)\<rparr>))"
  by (simp add: set_ip_PStr dotted_quad_starts)

theorem set_ip_accepts_dotted_quad_prefix_witness:
  "GuardedConfig_set_ip \<lparr>uconfig = 0\<rparr> (PStr ''1.2.3.4.5'') example_heap
     = (Return (), example_heap(0 := \<lparr>ip = PStr ''1.2.3.4.5'', port = PInt 6321\<rparr>))
   \<and> GuardedConfig_set_ip \<lparr>uconfig = 0\<rparr> (PStr ''127.0.0.1abc'') example_heap
     = (Return (), example_heap(0 := \<lparr>ip = PStr ''127.0.0.1abc'', port = PInt 6321\<rparr>))"
proof -
  have a: "dotted_quad ''1.2.3.4''" and b: "dotted_quad ''127.0.0.1''"
    by (simp_all add: eval_dotted_quad)
  show ?thesis
    using set_ip_accepts_dotted_quad_prefix [OF a, of "\<lparr>uconfig = 0\<rparr>" "''.5''" example_heap]
      set_ip_accepts_dotted_quad_prefix [OF b, of "\<lparr>uconfig = 0\<rparr>" "''abc''" example_heap]
    by (simp add: example_heap_def)
qed




text \<open>
  C7: when the file parses to a mapping whose set of keys is not exactly \<^verbatim>\<open>ip\<close> and
  \<^verbatim>\<open>port\<close> (a key too many or a key missing), \<^verbatim>\<open>import_config\<close> returns \<^verbatim>\<open>None\<close>
  and prints nothing; and a \<^verbatim>\<open>Config\<close> that the JSON parser returns has both fields
  taken from a mapping with exactly these two keys, so none is returned half filled.
\<close>

theorem import_config_key_mismatch:
  "(open_r e path = Return (Return doc) \<and> json_loads e doc = Return (PDict kvs)
      \<and> set (map fst kvs) \<noteq> {PStr ''ip'', PStr ''port''} \<longrightarrow>
        JsonConfigParser_import_config e path = (Return None, []))
   \<and> (open_r e path = Return (Return doc) \<and> yaml_load e doc = Return (PDict kvs)
      \<and> set (map fst kvs) \<noteq> {PStr ''ip'', PStr ''port''} \<longrightarrow>
        YamlConfigParser_import_config e path = (Return None, []))
   \<and> (JsonConfigParser_import_config e path = (Return (Some c), out) \<longrightarrow>
        (\<exists>doc' kvs'. open_r e path = Return (Return doc') \<and> json_loads e doc' = Return (PDict kvs')
           \<and> set (map fst kvs') = {PStr ''ip'', PStr ''port''}
           \<and> map_of kvs' (PStr ''ip'') = Some (ip c) \<and> map_of kvs' (PStr ''port'') = Some (port c)))"
proof (intro conjI impI)
  assume a: "open_r e path = Return (Return doc) \<and> json_loads e doc = Return (PDict kvs)
      \<and> set (map fst kvs) \<noteq> {PStr ''ip'', PStr ''port''}"
  have "import_config_try (json_loads e) e path = Return None"
    using conjunct1 [OF a] conjunct1 [OF conjunct2 [OF a]] conjunct2 [OF conjunct2 [OF a]]
    by (rule try_key_mismatch)
  then show "JsonConfigParser_import_config e path = (Return None, [])"
    by (simp add: JsonConfigParser_import_config_def except_Exception_def)
next
  assume a: "open_r e path = Return (Return doc) \<and> yaml_load e doc = Return (PDict kvs)
      \<and> set (map fst kvs) \<noteq> {PStr ''ip'', PStr ''port''}"
  have "import_config_try (yaml_load e) e path = Return None"
    using conjunct1 [OF a] conjunct1 [OF conjunct2 [OF a]] conjunct2 [OF conjunct2 [OF a]]
    by (rule try_key_mismatch)
  then show "YamlConfigParser_import_config e path = (Return None, [])"
    by (simp add: YamlConfigParser_import_config_def except_Exception_def)
next
  assume "JsonConfigParser_import_config e path = (Return (Some c), out)"
  then have "import_config_try (json_loads e) e path = Return (Some c)"
    unfolding JsonConfigParser_import_config_def by (rule except_Exception_Some)
  then show "\<exists>doc' kvs'. open_r e path = Return (Return doc') \<and> json_loads e doc' = Return (PDict kvs')
           \<and> set (map fst kvs') = {PStr ''ip'', PStr ''port''}
           \<and> map_of kvs' (PStr ''ip'') = Some (ip c) \<and> map_of kvs' (PStr ''port'') = Some (port c)"
    by (rule try_Some)
qed


theorem import_config_key_mismatch_witness:
  "JsonConfigParser_import_config example_env ''extra.json'' = (Return None, [])
   \<and> YamlConfigParser_import_config example_env ''extra.json'' = (Return None, [])
   \<and> (\<exists>doc' kvs'. open_r example_env ''config.json'' = Return (Return doc')
         \<and> json_loads example_env doc' = Return (PDict kvs')
         \<and> set (map fst kvs') = {PStr ''ip'', PStr ''port''}
         \<and> map_of kvs' (PStr ''ip'') = Some (PStr ''1.2.3.4'')
         \<and> map_of kvs' (PStr ''port'') = Some (PInt 80))"
proof -
  have a: "open_r example_env ''extra.json'' = Return (Return extra_text)"
    by (simp add: example_env_def example_open_def)
  have b: "json_loads example_env extra_text
      = Return (PDict [(PStr ''ip'', PStr ''1.2.3.4''), (PStr ''port'', PInt 80), (PStr ''extra'', PInt 1)])"
    and b': "yaml_load example_env extra_text
      = Return (PDict [(PStr ''ip'', PStr ''1.2.3.4''), (PStr ''port'', PInt 80), (PStr ''extra'', PInt 1)])"
    by (simp_all add: eval_example)
  have "PStr ''extra'' \<in> set (map fst [(PStr ''ip'', PStr ''1.2.3.4''), (PStr ''port'', PInt 80), (PStr ''extra'', PInt 1)])"
    by simp
  moreover have "PStr ''extra'' \<notin> {PStr ''ip'', PStr ''port''}"
    by simp
  ultimately have c: "set (map fst [(PStr ''ip'', PStr ''1.2.3.4''), (PStr ''port'', PInt 80), (PStr ''extra'', PInt 1)])
      \<noteq> {PStr ''ip'', PStr ''port''}"
    by metis
  have d: "JsonConfigParser_import_config example_env ''config.json''
      = (Return (Some \<lparr>ip = PStr ''1.2.3.4'', port = PInt 80\<rparr>), [])"
    by (simp add: JsonConfigParser_import_config_def except_Exception_def import_config_try_def
        bind_def py_keys_def py_getitem_def Config_dict_keys_def eval_example)
  have "JsonConfigParser_import_config example_env ''extra.json'' = (Return None, [])"
    and "YamlConfigParser_import_config example_env ''extra.json'' = (Return None, [])"
    using a b b' c import_config_key_mismatch [of example_env "''extra.json''" extra_text
        "[(PStr ''ip'', PStr ''1.2.3.4''), (PStr ''port'', PInt 80), (PStr ''extra'', PInt 1)]"]
    by blast+
  moreover have "\<exists>doc' kvs'. open_r example_env ''config.json'' = Return (Return doc')
         \<and> json_loads example_env doc' = Return (PDict kvs')
         \<and> set (map fst kvs') = {PStr ''ip'', PStr ''port''}
         \<and> map_of kvs' (PStr ''ip'') = Some (PStr ''1.2.3.4'')
         \<and> map_of kvs' (PStr ''port'') = Some (PInt 80)"
    using d import_config_key_mismatch [of example_env "''config.json''" _ _
        "\<lparr>ip = PStr ''1.2.3.4'', port = PInt 80\<rparr>" "[]"]
    by simp
  ultimately show ?thesis by blast
qed

text \<open>
  C8: when the file parses to a mapping whose keys are exactly \<^verbatim>\<open>ip\<close> and \<^verbatim>\<open>port\<close>,
  \<^verbatim>\<open>import_config\<close> of the JSON parser returns a \<^verbatim>\<open>Config\<close> whose two fields are the
  values of the mapping as they are, of whatever type, and prints nothing.
\<close>

theorem import_config_copies_fields:
  "open_r e path = Return (Return doc) \<Longrightarrow> json_loads e doc = Return (PDict kvs) \<Longrightarrow>
   set (map fst kvs) = {PStr ''ip'', PStr ''port''} \<Longrightarrow>
     \<exists>v1 v2. map_of kvs (PStr ''ip'') = Some v1 \<and> map_of kvs (PStr ''port'') = Some v2
       \<and> JsonConfigParser_import_config e path = (Return (Some \<lparr>ip = v1, port = v2\<rparr>), [])"
proof -
  assume "open_r e path = Return (Return doc)" "json_loads e doc = Return (PDict kvs)"
    "set (map fst kvs) = {PStr ''ip'', PStr ''port''}"
  then obtain v1 v2 where "map_of kvs (PStr ''ip'') = Some v1" "map_of kvs (PStr ''port'') = Some v2"
    "import_config_try (json_loads e) e path = Return (Some \<lparr>ip = v1, port = v2\<rparr>)"
    using try_key_match [of e path doc "json_loads e" kvs] by blast
  then show ?thesis
    by (simp add: JsonConfigParser_import_config_def except_Exception_def)
qed

theorem import_config_copies_fields_witness:
  "JsonConfigParser_import_config example_env ''config.json''
     = (Return (Some \<lparr>ip = PStr ''1.2.3.4'', port = PInt 80\<rparr>), [])
   \<and> JsonConfigParser_import_config example_env ''untyped.json''
     = (Return (Some \<lparr>ip = PInt 5, port = PStr ''eighty''\<rparr>), [])"
proof -
  have a: "open_r example_env ''config.json'' = Return (Return config_text)"
    and b: "json_loads example_env config_text
      = Return (PDict [(PStr ''ip'', PStr ''1.2.3.4''), (PStr ''port'', PInt 80)])"
    and c: "set (map fst [(PStr ''ip'', PStr ''1.2.3.4''), (PStr ''port'', PInt 80)])
      = {PStr ''ip'', PStr ''port''}"
    by (simp_all add: eval_example)
  have a': "open_r example_env ''untyped.json'' = Return (Return untyped_text)"
    and b': "json_loads example_env untyped_text
      = Return (PDict [(PStr ''ip'', PInt 5), (PStr ''port'', PStr ''eighty'')])"
    and c': "set (map fst [(PStr ''ip'', PInt 5), (PStr ''port'', PStr ''eighty'')])
      = {PStr ''ip'', PStr ''port''}"
    by (simp_all add: eval_example)
  show ?thesis
    using import_config_copies_fields [OF a b c] import_config_copies_fields [OF a' b' c']
    by simp
qed




end
